theory Spec2Isabelle
  imports Complex_Main "HOL-Library.AList" "HOL-Library.Log_Nat"
begin

section \<open>Python values, dictionaries and exceptions\<close>

text \<open>
  The download server of \<^verbatim>\<open>fastmcp_server.py\<close> keeps every job as a Python dictionary and
  receives progress samples from yt-dlp as dictionaries of arbitrary Python values. The values
  that occur are \<^verbatim>\<open>None\<close>, booleans, integers, floats, strings, nested dictionaries and the
  \<^verbatim>\<open>asyncio.Task\<close> handle of a job.

  A float is modelled by the rational number it stands for, and every float operation
  rounds its exact result to the nearest double, a tie going to the even mantissa
  (\<open>to_double\<close> below). The exponent range is not bounded: there is no overflow, no
  subnormal number, no infinity and no NaN.
\<close>

datatype task_phase = Scheduled | Fetching | Detached | Done

record task_handle =
  phase :: task_phase
  cancel_called :: bool

datatype pyval =
    PNone
  | PBool bool
  | PInt int
  | PFloat rat
  | PStr string
  | PDict "(string \<times> pyval) list"
  | PTask task_handle

type_synonym dict = "(string \<times> pyval) list"

text \<open>\<^verbatim>\<open>d.get(k)\<close> and \<^verbatim>\<open>d.get(k, default)\<close>.\<close>

definition dict_get_default :: "dict \<Rightarrow> string \<Rightarrow> pyval \<Rightarrow> pyval" where
  "dict_get_default d k dflt = (case map_of d k of None \<Rightarrow> dflt | Some v \<Rightarrow> v)"

definition dict_get :: "dict \<Rightarrow> string \<Rightarrow> pyval" where
  "dict_get d k = dict_get_default d k PNone"

text \<open>Python truthiness, and \<^verbatim>\<open>a or b\<close>.\<close>

fun truthy :: "pyval \<Rightarrow> bool" where
  "truthy PNone = False"
| "truthy (PBool b) = b"
| "truthy (PInt i) = (i \<noteq> 0)"
| "truthy (PFloat r) = (r \<noteq> 0)"
| "truthy (PStr s) = (s \<noteq> [])"
| "truthy (PDict kvs) = (kvs \<noteq> [])"
| "truthy (PTask t) = True"

definition py_or :: "pyval \<Rightarrow> pyval \<Rightarrow> pyval" where
  "py_or a b = (if truthy a then a else b)"

text \<open>
  An exception instance, as far as the server looks at it: the name of its class as
  \<^verbatim>\<open>traceback\<close> prints it (module-qualified unless the module is \<^verbatim>\<open>builtins\<close> or
  \<^verbatim>\<open>__main__\<close>) and \<^verbatim>\<open>str(e)\<close>. Only subclasses of \<^verbatim>\<open>Exception\<close> are modelled: they are
  what \<^verbatim>\<open>except Exception\<close> catches.
\<close>

datatype py_exception = Exc (exc_type: string) (exc_str: string)

text \<open>The numeric value of an operand of \<^verbatim>\<open>/\<close>; \<^verbatim>\<open>bool\<close> is a subclass of \<^verbatim>\<open>int\<close>.\<close>

fun num_of :: "pyval \<Rightarrow> rat option" where
  "num_of (PBool b) = Some (if b then 1 else 0)"
| "num_of (PInt i) = Some (of_int i)"
| "num_of (PFloat r) = Some r"
| "num_of _ = None"

text \<open>The nearest integer, a tie going to the even one.\<close>

definition round_half_even :: "rat \<Rightarrow> int" where
  "round_half_even q =
     (let f = \<lfloor>q\<rfloor>; r = q - of_int f
      in if r < 1 / 2 then f
         else if 1 / 2 < r then f + 1
         else if even f then f else f + 1)"

text \<open>
  The binary exponent of a rational \<open>x \<noteq> 0\<close>, that is the \<open>e\<close> with
  \<open>2\<^sup>e \<le> \<bar>x\<bar> < 2\<^sup>e\<^sup>+\<^sup>1\<close>, and the double nearest to \<open>x\<close>: a multiple of
  \<open>2\<^sup>e\<^sup>-\<^sup>5\<^sup>2\<close> with a mantissa of 53 bits.
\<close>

definition expo :: "rat \<Rightarrow> int" where
  "expo x =
     (let (p, q) = quotient_of \<bar>x\<bar>; e = bitlen p - bitlen q
      in if 2 powi e \<le> \<bar>x\<bar> then e else e - 1)"

definition to_double :: "rat \<Rightarrow> rat" where
  "to_double x =
     (if x = 0 then 0
      else let u = 2 powi (expo x - 52) in of_int (round_half_even (x / u)) * u)"

text \<open>Whether an operand is an \<^verbatim>\<open>int\<close> (a \<^verbatim>\<open>bool\<close> is one).\<close>

fun is_int :: "pyval \<Rightarrow> bool" where
  "is_int (PBool b) = True"
| "is_int (PInt i) = True"
| "is_int _ = False"

text \<open>
  True division \<^verbatim>\<open>a / b\<close>. The quotient of two integers is rounded once; with a float
  among the operands an integer operand is converted to a float first. Anything but a number
  raises \<^verbatim>\<open>TypeError\<close>.
\<close>

definition py_truediv :: "pyval \<Rightarrow> pyval \<Rightarrow> py_exception + rat" where
  "py_truediv a b =
     (case num_of a of
        None \<Rightarrow> Inl (Exc ''TypeError'' ''unsupported operand type(s) for /'')
      | Some x \<Rightarrow>
          (case num_of b of
             None \<Rightarrow> Inl (Exc ''TypeError'' ''unsupported operand type(s) for /'')
           | Some y \<Rightarrow>
               if y = 0 then Inl (Exc ''ZeroDivisionError'' ''division by zero'')
               else if is_int a \<and> is_int b then Inr (to_double (x / y))
               else Inr (to_double (to_double x / to_double y))))"

text \<open>
  \<^verbatim>\<open>round(x, 2)\<close> on a float: the exact value of \<open>x\<close> is rounded to the nearest
  multiple of 1/100, a tie going to the even neighbour (\<open>py_round2\<close>), and the result is
  the double nearest to that multiple.
\<close>

definition py_round2 :: "rat \<Rightarrow> rat" where
  "py_round2 x = of_int (round_half_even (x * 100)) / 100"

definition py_round :: "rat \<Rightarrow> rat" where
  "py_round x = to_double (py_round2 x)"

section \<open>Jobs\<close>

datatype status = Pending | Downloading | Completed | Error | Cancelled | Cancel_requested

fun status_str :: "status \<Rightarrow> string" where
  "status_str Pending = ''pending''"
| "status_str Downloading = ''downloading''"
| "status_str Completed = ''completed''"
| "status_str Error = ''error''"
| "status_str Cancelled = ''cancelled''"
| "status_str Cancel_requested = ''cancel_requested''"

record progress_info =
  percent :: rat
  downloaded_bytes :: pyval
  total_bytes :: pyval

record job =
  job_id :: string
  url :: string
  status :: status
  progress :: progress_info
  error_message :: "string option"
  output_path :: "string option"
  cancel_requested :: bool
  task :: "task_handle option"

text \<open>
  \<^verbatim>\<open>_make_job_entry(url, download_path)\<close>. The identifier \<^verbatim>\<open>str(uuid.uuid4())\<close> is drawn
  by the caller of the model and passed as \<open>new_id\<close>.
\<close>

definition make_job_entry :: "string \<Rightarrow> string \<Rightarrow> string \<Rightarrow> job" where
  "make_job_entry new_id u download_path =
     \<lparr> job_id = new_id,
       url = u,
       status = Pending,
       progress = \<lparr> percent = 0, downloaded_bytes = PInt 0, total_bytes = PNone \<rparr>,
       error_message = None,
       output_path = None,
       cancel_requested = False,
       task = None \<rparr>"

section \<open>The progress hook\<close>

text \<open>
  \<^verbatim>\<open>total = d.get('total_bytes') or d.get('total_bytes_estimate')\<close>
\<close>

definition sample_total :: "dict \<Rightarrow> pyval" where
  "sample_total d = py_or (dict_get d ''total_bytes'') (dict_get d ''total_bytes_estimate'')"

text \<open>
  \<^verbatim>\<open>percent = d.get('downloaded_bytes') / total * 100 if total else 0.0\<close>
\<close>

definition sample_percent :: "dict \<Rightarrow> pyval \<Rightarrow> py_exception + rat" where
  "sample_percent d tot =
     (if truthy tot
      then (case py_truediv (dict_get d ''downloaded_bytes'') tot of
              Inl e \<Rightarrow> Inl e
            | Inr q \<Rightarrow> Inr (to_double (q * 100)))
      else Inr 0)"

text \<open>
  The body of the \<^verbatim>\<open>try\<close> block of \<^verbatim>\<open>progress_hook\<close>; \<open>Inl\<close> is an exception raised
  inside it, before the job was touched.
\<close>

definition hook_update :: "job \<Rightarrow> dict \<Rightarrow> py_exception + job" where
  "hook_update j d =
     (let st = dict_get d ''status''
      in if st = PStr ''downloading'' then
           (let tot = sample_total d;
                downloaded = dict_get_default d ''downloaded_bytes'' (PInt 0)
            in case sample_percent d tot of
                 Inl e \<Rightarrow> Inl e
               | Inr p \<Rightarrow>
                   Inr (j\<lparr>progress :=
                          \<lparr> percent = py_round p,
                            downloaded_bytes = downloaded,
                            total_bytes = tot \<rparr>\<rparr>))
         else if st = PStr ''finished'' then
           Inr (j\<lparr>progress := (progress j)\<lparr>percent := 100\<rparr>\<rparr>)
         else Inr j)"

text \<open>
  \<^verbatim>\<open>progress_hook(d)\<close>: the job after the call, and the exception the call raises into
  yt-dlp, if any. An exception of the \<^verbatim>\<open>try\<close> block is swallowed; the cancellation check
  follows it.
\<close>

definition progress_hook :: "job \<Rightarrow> dict \<Rightarrow> job \<times> py_exception option" where
  "progress_hook j d =
     (let j' = (case hook_update j d of Inl e \<Rightarrow> j | Inr j1 \<Rightarrow> j1)
      in if cancel_requested j'
         then (j', Some (Exc ''yt_dlp.utils.DownloadError'' ''Cancelled by user''))
         else (j', None))"

section \<open>The operating system\<close>

text \<open>
  The calls into \<^verbatim>\<open>os\<close> and \<^verbatim>\<open>os.path\<close> are parameters of the model.
  \<open>makedirs_error p\<close> is the exception \<^verbatim>\<open>os.makedirs(p, exist_ok=True)\<close> raises, \<open>None\<close>
  when it succeeds; \<open>path_abspath\<close> may raise too (it asks for the working directory).
\<close>

record os_env =
  makedirs_error :: "string \<Rightarrow> py_exception option"
  path_join :: "string \<Rightarrow> string list \<Rightarrow> string"
  path_dirname :: "string \<Rightarrow> string"
  path_abspath :: "string \<Rightarrow> py_exception + string"

section \<open>The execution unit\<close>

text \<open>
  \<^verbatim>\<open>_run_yt_dlp_job(job, ydl_opts)\<close> is a coroutine with one suspension point, the
  \<^verbatim>\<open>await\<close> of the fetch. It is modelled by its three segments: from the start to the
  \<^verbatim>\<open>await\<close>, from a fetch that returned to the end, and from a fetch that raised to the end.
\<close>

text \<open>
  The lines between \<^verbatim>\<open>outtmpl = ydl_opts.get('outtmpl')\<close> and the \<^verbatim>\<open>try\<close>: the exception
  they raise, if any.
\<close>

definition ensure_parent :: "os_env \<Rightarrow> pyval \<Rightarrow> py_exception option" where
  "ensure_parent env outtmpl =
     (if truthy outtmpl then
        (case outtmpl of
           PStr s \<Rightarrow>
             (let parent = path_dirname env s
              in if parent \<noteq> [] then makedirs_error env parent else None)
         | _ \<Rightarrow> Some (Exc ''TypeError'' ''expected str, bytes or os.PathLike object''))
      else None)"

definition run_job_start :: "os_env \<Rightarrow> dict \<Rightarrow> job \<Rightarrow> py_exception + job" where
  "run_job_start env ydl_opts j =
     (case ensure_parent env (dict_get ydl_opts ''outtmpl'') of
        Some e \<Rightarrow> Inl e
      | None \<Rightarrow> Inr (j\<lparr>status := Downloading\<rparr>))"

text \<open>\<^verbatim>\<open>''.join(traceback.format_exception_only(type(e), e)).strip()\<close>\<close>

definition format_exception_only :: "py_exception \<Rightarrow> string list" where
  "format_exception_only e =
     [if exc_str e = [] then exc_type e @ [CHR 0x0A]
      else exc_type e @ '': '' @ exc_str e @ [CHR 0x0A]]"

definition is_space :: "char \<Rightarrow> bool" where
  "is_space c = (c \<in> set [CHR 0x09, CHR 0x0A, CHR 0x0B, CHR 0x0C, CHR 0x0D,
                           CHR 0x1C, CHR 0x1D, CHR 0x1E, CHR 0x1F, CHR 0x20])"

definition strip :: "string \<Rightarrow> string" where
  "strip s = rev (dropWhile is_space (rev (dropWhile is_space s)))"

text \<open>The \<^verbatim>\<open>except Exception as e\<close> handler.\<close>

definition run_job_raised :: "py_exception \<Rightarrow> job \<Rightarrow> job" where
  "run_job_raised e j =
     (if cancel_requested j
      then j\<lparr>status := Cancelled, error_message := Some ''Cancelled by user''\<rparr>
      else j\<lparr>status := Error,
             error_message := Some (strip (concat (format_exception_only e)))\<rparr>)"

text \<open>
  The lines after the \<^verbatim>\<open>await\<close> when the fetch returned. They are inside the \<^verbatim>\<open>try\<close>:
  an exception of \<^verbatim>\<open>os.path.abspath\<close> reaches the handler, after the status was set.
\<close>

definition run_job_returned :: "os_env \<Rightarrow> dict \<Rightarrow> job \<Rightarrow> job" where
  "run_job_returned env ydl_opts j =
     (let outtmpl = dict_get ydl_opts ''outtmpl'';
          j1 = j\<lparr>status := Completed\<rparr>
      in if truthy outtmpl then
           (case outtmpl of
              PStr s \<Rightarrow>
                (case path_abspath env s of
                   Inl e \<Rightarrow> run_job_raised e j1
                 | Inr p \<Rightarrow> j1\<lparr>output_path := Some p\<rparr>)
            | _ \<Rightarrow> run_job_raised (Exc ''TypeError'' ''expected str, bytes or os.PathLike object'') j1)
         else j1)"

section \<open>The tools\<close>

type_synonym registry = "(string \<times> job) list"

text \<open>A task that \<^verbatim>\<open>asyncio.create_task\<close> has just created.\<close>

definition new_task :: task_handle where
  "new_task = \<lparr> phase = Scheduled, cancel_called = False \<rparr>"

definition video_opts :: "os_env \<Rightarrow> string \<Rightarrow> dict" where
  "video_opts env download_path =
     [(''outtmpl'', PStr (path_join env download_path [''%(title)s - %(id)s.%(ext)s''])),
      (''noplaylist'', PBool True),
      (''quiet'', PBool True),
      (''no_warnings'', PBool True)]"

definition playlist_opts :: "os_env \<Rightarrow> string \<Rightarrow> dict" where
  "playlist_opts env download_path =
     [(''outtmpl'', PStr (path_join env download_path
         [''%(playlist)s'', ''%(playlist_index)s - %(title)s - %(id)s.%(ext)s''])),
      (''yesplaylist'', PBool True),
      (''quiet'', PBool True),
      (''no_warnings'', PBool True)]"

text \<open>
  \<^verbatim>\<open>download_video(url, download_path)\<close> and \<^verbatim>\<open>download_playlist(url, download_path)\<close>:
  the registry after the call, and the returned dictionary or the exception raised to the
  caller. The created task runs \<^verbatim>\<open>_run_yt_dlp_job\<close> on the job with \<open>video_opts\<close>
  (\<open>playlist_opts\<close>).
\<close>

definition download_video ::
  "os_env \<Rightarrow> string \<Rightarrow> registry \<Rightarrow> string \<Rightarrow> string \<Rightarrow> registry \<times> (py_exception + dict)" where
  "download_video env new_id JOBS u download_path =
     (let j = make_job_entry new_id u download_path;
          jid = job_id j;
          JOBS1 = AList.update jid j JOBS
      in case makedirs_error env download_path of
           Some e \<Rightarrow> (JOBS1, Inl e)
         | None \<Rightarrow>
             (AList.update jid (j\<lparr>task := Some new_task\<rparr>) JOBS1,
              Inr [(''job_id'', PStr jid)]))"

definition download_playlist ::
  "os_env \<Rightarrow> string \<Rightarrow> registry \<Rightarrow> string \<Rightarrow> string \<Rightarrow> registry \<times> (py_exception + dict)" where
  "download_playlist env new_id JOBS u download_path =
     (let j = make_job_entry new_id u download_path;
          jid = job_id j;
          JOBS1 = AList.update jid j JOBS
      in case makedirs_error env download_path of
           Some e \<Rightarrow> (JOBS1, Inl e)
         | None \<Rightarrow>
             (AList.update jid (j\<lparr>task := Some new_task\<rparr>) JOBS1,
              Inr [(''job_id'', PStr jid)]))"

text \<open>\<^verbatim>\<open>job.items()\<close>: the job as the dictionary the source keeps, keys in insertion order.\<close>

definition opt_str :: "string option \<Rightarrow> pyval" where
  "opt_str x = (case x of None \<Rightarrow> PNone | Some s \<Rightarrow> PStr s)"

definition job_items :: "job \<Rightarrow> dict" where
  "job_items j =
     [(''job_id'', PStr (job_id j)),
      (''url'', PStr (url j)),
      (''status'', PStr (status_str (status j))),
      (''progress'', PDict [(''percent'', PFloat (percent (progress j))),
                            (''downloaded_bytes'', downloaded_bytes (progress j)),
                            (''total_bytes'', total_bytes (progress j))]),
      (''error_message'', opt_str (error_message j)),
      (''output_path'', opt_str (output_path j)),
      (''cancel_requested'', PBool (cancel_requested j)),
      (''task'', (case task j of None \<Rightarrow> PNone | Some t \<Rightarrow> PTask t))]"

definition not_found :: "string \<Rightarrow> dict" where
  "not_found jid = [(''error'', PStr ''job_id not found''), (''job_id'', PStr jid)]"

definition get_download_status :: "registry \<Rightarrow> string \<Rightarrow> dict" where
  "get_download_status JOBS jid =
     (case map_of JOBS jid of
        None \<Rightarrow> not_found jid
      | Some j \<Rightarrow> filter (\<lambda>(k, v). k \<noteq> ''task'') (job_items j))"

definition list_downloads :: "registry \<Rightarrow> dict list" where
  "list_downloads JOBS =
     map (\<lambda>j. filter (\<lambda>(k, v). k \<notin> set [''task'']) (job_items j)) (map snd JOBS)"

text \<open>\<^verbatim>\<open>task.done()\<close>\<close>

definition task_done :: "task_handle \<Rightarrow> bool" where
  "task_done t = (phase t = Done \<or> phase t = Detached)"

definition is_terminal :: "status \<Rightarrow> bool" where
  "is_terminal s = (s \<in> set [Completed, Error, Cancelled])"

text \<open>
  \<^verbatim>\<open>cancel_download(job_id)\<close> once the job was found: the job after the call and the
  returned dictionary. No statement of it can raise: \<^verbatim>\<open>task.cancel()\<close> is wrapped in
  \<^verbatim>\<open>try\<close>/\<^verbatim>\<open>except\<close>.
\<close>

definition cancel_found :: "string \<Rightarrow> job \<Rightarrow> job \<times> dict" where
  "cancel_found jid j =
     (if is_terminal (status j) then
        (j, [(''status'', PStr ''cannot_cancel''),
             (''reason'', PStr (''job already '' @ status_str (status j))),
             (''job_id'', PStr jid)])
      else
        (let j1 = j\<lparr>cancel_requested := True\<rparr>;
             j2 = (case task j1 of
                     Some t \<Rightarrow>
                       if \<not> task_done t then j1\<lparr>task := Some (t\<lparr>cancel_called := True\<rparr>)\<rparr>
                       else j1
                   | None \<Rightarrow> j1)
         in (j2\<lparr>status := Cancel_requested\<rparr>,
             [(''status'', PStr ''cancellation_requested''), (''job_id'', PStr jid)])))"

definition cancel_download :: "registry \<Rightarrow> string \<Rightarrow> registry \<times> dict" where
  "cancel_download JOBS jid =
     (case map_of JOBS jid of
        None \<Rightarrow> (JOBS, not_found jid)
      | Some j \<Rightarrow>
          (let (j', res) = cancel_found jid j
           in (AList.update jid j' JOBS, res)))"

section \<open>The life of a job\<close>

text \<open>
  What can happen to a job after it was submitted. The tools run on the event loop, the
  fetch runs in a worker thread, and the execution unit is suspended while it runs, so the
  segments below interleave in any order that respects the task:
  \<^item> \<open>Begin\<close>: the task starts and runs to the \<^verbatim>\<open>await\<close>. A task on which
    \<^verbatim>\<open>cancel()\<close> was called before its first step never runs its body.
  \<^item> \<open>Sample d\<close>: yt-dlp calls the progress hook with \<open>d\<close>; what yt-dlp does with an
    exception of the hook is left to it.
  \<^item> \<open>Fetch_returned\<close>, \<open>Fetch_raised e\<close>: the \<^verbatim>\<open>await\<close> ends and the task runs to its end.
  \<^item> \<open>Cancel_call\<close>: \<^verbatim>\<open>cancel_download\<close> is called for the job.
  \<^item> \<open>Task_cancelled\<close>: a \<^verbatim>\<open>cancel()\<close> takes effect and the task ends without running
    any further line of the execution unit; a fetch that was running goes on in its thread.
  Whether a \<^verbatim>\<open>cancel()\<close> on a task that is waiting for the fetch takes effect is up to
  asyncio; the model allows both, the task going on and the task ending.
\<close>

datatype event =
    Begin
  | Sample dict
  | Fetch_returned
  | Fetch_raised py_exception
  | Cancel_call
  | Task_cancelled

definition set_phase :: "task_phase \<Rightarrow> job \<Rightarrow> job" where
  "set_phase p j = j\<lparr>task := map_option (\<lambda>t. t\<lparr>phase := p\<rparr>) (task j)\<rparr>"

definition in_phase :: "task_phase \<Rightarrow> job \<Rightarrow> bool" where
  "in_phase p j = (case task j of None \<Rightarrow> False | Some t \<Rightarrow> phase t = p)"

definition cancel_pending :: "job \<Rightarrow> bool" where
  "cancel_pending j = (case task j of None \<Rightarrow> False | Some t \<Rightarrow> cancel_called t)"

fun step :: "os_env \<Rightarrow> dict \<Rightarrow> job \<Rightarrow> event \<Rightarrow> job option" where
  "step env ydl_opts j Begin =
     (if in_phase Scheduled j \<and> \<not> cancel_pending j then
        (case run_job_start env ydl_opts j of
           Inl e \<Rightarrow> Some (set_phase Done j)
         | Inr j' \<Rightarrow> Some (set_phase Fetching j'))
      else None)"
| "step env ydl_opts j (Sample d) =
     (if in_phase Fetching j \<or> in_phase Detached j
      then Some (fst (progress_hook j d)) else None)"
| "step env ydl_opts j Fetch_returned =
     (if in_phase Fetching j
      then Some (set_phase Done (run_job_returned env ydl_opts j)) else None)"
| "step env ydl_opts j (Fetch_raised e) =
     (if in_phase Fetching j
      then Some (set_phase Done (run_job_raised e j)) else None)"
| "step env ydl_opts j Cancel_call = Some (fst (cancel_found (job_id j) j))"
| "step env ydl_opts j Task_cancelled =
     (if cancel_pending j \<and> in_phase Scheduled j then Some (set_phase Done j)
      else if cancel_pending j \<and> in_phase Fetching j then Some (set_phase Detached j)
      else None)"

fun run_events :: "os_env \<Rightarrow> dict \<Rightarrow> job \<Rightarrow> event list \<Rightarrow> job option" where
  "run_events env ydl_opts j [] = Some j"
| "run_events env ydl_opts j (ev # evs) =
     (case step env ydl_opts j ev of
        None \<Rightarrow> None
      | Some j' \<Rightarrow> run_events env ydl_opts j' evs)"

text \<open>The job as \<^verbatim>\<open>download_video\<close> or \<^verbatim>\<open>download_playlist\<close> leaves it in the registry.\<close>

definition submitted :: "string \<Rightarrow> string \<Rightarrow> string \<Rightarrow> job" where
  "submitted new_id u download_path = (make_job_entry new_id u download_path)\<lparr>task := Some new_task\<rparr>"


section \<open>Progress over a run of samples\<close>

text \<open>The percent values the job shows after each of a run of samples.\<close>

fun percent_trace :: "job \<Rightarrow> dict list \<Rightarrow> rat list" where
  "percent_trace j [] = []"
| "percent_trace j (d # ds) =
     (let j' = fst (progress_hook j d)
      in percent (progress j') # percent_trace j' ds)"

text \<open>
  The value of \<^verbatim>\<open>round(n / t * 100, 2)\<close> for integers \<open>n\<close> and \<open>t \<noteq> 0\<close>.
\<close>

definition int_percent :: "int \<Rightarrow> int \<Rightarrow> rat" where
  "int_percent n t = py_round (to_double (to_double (of_int n / of_int t) * 100))"

text \<open>
  A run of samples of one file of \<open>t\<close> bytes: \<^verbatim>\<open>downloading\<close> samples that all carry the
  integer total \<open>t\<close> and whose byte counts are integers that start at \<open>lo\<close> or above,
  never decrease and never exceed \<open>t\<close>, followed by any number of \<^verbatim>\<open>finished\<close>
  samples.
\<close>

fun growing :: "int \<Rightarrow> int \<Rightarrow> dict list \<Rightarrow> bool" where
  "growing t lo [] = True"
| "growing t lo (d # ds) =
     (if dict_get d ''status'' = PStr ''finished''
      then list_all (\<lambda>d'. dict_get d' ''status'' = PStr ''finished'') ds
      else dict_get d ''status'' = PStr ''downloading'' \<and>
           sample_total d = PInt t \<and>
           (case dict_get d ''downloaded_bytes'' of
              PInt n \<Rightarrow> lo \<le> n \<and> n \<le> t \<and> growing t n ds
            | _ \<Rightarrow> False))"

section \<open>An example system\<close>

text \<open>
  A file system for the examples: every directory but the one with the empty name can be
  created, paths are joined with a slash, the working directory is \<^verbatim>\<open>/srv\<close>.
\<close>

definition example_os :: os_env where
  "example_os =
     \<lparr> makedirs_error =
         (\<lambda>p. if p = [] then Some (Exc ''FileNotFoundError'' ''No such file or directory'')
              else None),
       path_join = (\<lambda>a ps. foldl (\<lambda>x y. x @ ''/'' @ y) a ps),
       path_dirname = (\<lambda>p. rev (drop 1 (dropWhile (\<lambda>c. c \<noteq> CHR ''/'') (rev p)))),
       path_abspath = (\<lambda>p. Inr (''/srv/'' @ p)) \<rparr>"

section \<open>What holds of every job\<close>


section \<open>Facts about rounding\<close>

lemma bitlen_powi:
  assumes "0 < (m::int)"
  shows "(2::rat) powi (bitlen m - 1) \<le> of_int m" and "of_int m < (2::rat) powi (bitlen m)"
proof -
  from bitlen_bounds [OF assms] have a: "2 ^ nat (bitlen m - 1) \<le> m" and b: "m < 2 ^ nat (bitlen m)"
    by simp_all
  from assms have c: "1 \<le> bitlen m"
    by (simp add: bitlen_alt_def)
  from a have "(of_int (2 ^ nat (bitlen m - 1)) :: rat) \<le> of_int m"
    by (simp only: of_int_le_iff)
  with c show "(2::rat) powi (bitlen m - 1) \<le> of_int m"
    by (simp add: power_int_def)
  from b have "(of_int m :: rat) < of_int (2 ^ nat (bitlen m))"
    by (simp only: of_int_less_iff)
  with c show "of_int m < (2::rat) powi (bitlen m)"
    by (simp add: power_int_def)
qed

lemma expo_bounds:
  assumes "x \<noteq> 0"
  shows "2 powi (expo x) \<le> \<bar>x\<bar>" and "\<bar>x\<bar> < 2 powi (expo x + 1)"
proof -
  obtain p q where pq: "quotient_of \<bar>x\<bar> = (p, q)"
    by (cases "quotient_of \<bar>x\<bar>")
  from quotient_of_div [OF pq] have x: "\<bar>x\<bar> = of_int p / of_int q" .
  from quotient_of_denom_pos [OF pq] have q: "0 < q" .
  from assms x q have p: "0 < p"
  proof -
    from assms have "0 < \<bar>x\<bar>" by simp
    with x have "0 < (of_int p :: rat) / of_int q" by simp
    with q show ?thesis by (simp add: zero_less_divide_iff)
  qed
  let ?e = "bitlen p - bitlen q"
  note bp = bitlen_powi [OF p] and bq = bitlen_powi [OF q]
  have qpos: "(0::rat) < of_int q" using q by simp
  have lo: "(2::rat) powi (?e - 1) \<le> \<bar>x\<bar>"
  proof -
    have "(2::rat) powi (?e - 1) = 2 powi (bitlen p - 1) / 2 powi (bitlen q)"
      by (simp add: power_int_diff)
    also have "\<dots> \<le> of_int p / 2 powi (bitlen q)"
      using bp(1) by (simp add: divide_right_mono)
    also have "\<dots> \<le> of_int p / of_int q"
      using bq(2) p qpos by (simp add: frac_le)
    finally show ?thesis by (simp add: x)
  qed
  have hi: "\<bar>x\<bar> < (2::rat) powi (?e + 1)"
  proof -
    have "of_int p / of_int q < (2::rat) powi (bitlen p) / of_int q"
      using bp(2) qpos by (simp add: divide_strict_right_mono)
    also have "\<dots> \<le> 2 powi (bitlen p) / 2 powi (bitlen q - 1)"
      using bq(1) by (simp add: frac_le)
    also have "\<dots> = 2 powi (?e + 1)"
      by (simp add: power_int_diff power_int_add)
    finally show ?thesis by (simp add: x)
  qed
  have e: "expo x = (if 2 powi ?e \<le> \<bar>x\<bar> then ?e else ?e - 1)"
    by (simp add: expo_def pq Let_def)
  show "2 powi (expo x) \<le> \<bar>x\<bar>"
    using lo by (simp add: e)
  show "\<bar>x\<bar> < 2 powi (expo x + 1)"
    using hi by (auto simp add: e)
qed


lemma round_half_even_floor:
  "\<lfloor>q\<rfloor> \<le> round_half_even q" "round_half_even q \<le> \<lfloor>q\<rfloor> + 1"
  by (simp_all add: round_half_even_def Let_def)

lemma round_half_even_mono:
  assumes "x \<le> y"
  shows "round_half_even x \<le> round_half_even y"
proof (cases "\<lfloor>x\<rfloor> = \<lfloor>y\<rfloor>")
  case True
  from assms have "x - of_int \<lfloor>y\<rfloor> \<le> y - of_int \<lfloor>y\<rfloor>"
    by simp
  with True show ?thesis
    by (auto simp add: round_half_even_def Let_def)
next
  case False
  with assms have "\<lfloor>x\<rfloor> + 1 \<le> \<lfloor>y\<rfloor>"
    using floor_mono [of x y] by linarith
  with round_half_even_floor(2) [of x] round_half_even_floor(1) [of y] show ?thesis
    by linarith
qed

lemma round_half_even_int: "round_half_even (of_int k) = k"
  by (simp add: round_half_even_def)

lemma to_double_0: "to_double 0 = 0"
  by (simp add: to_double_def)



lemma to_double_binade:
  assumes "0 < x"
  shows "2 powi (expo x) \<le> to_double x" and "to_double x \<le> 2 powi (expo x + 1)"
proof -
  let ?u = "(2::rat) powi (expo x - 52)"
  have u: "0 < ?u" by simp
  from assms have nz: "x \<noteq> 0" by simp
  from assms expo_bounds [OF nz] have lo: "2 powi (expo x) \<le> x" and hi: "x < 2 powi (expo x + 1)"
    by simp_all
  have a: "(2::rat) powi (expo x) = of_int (2 ^ 52) * ?u"
    by (simp add: power_int_diff)
  have b: "(2::rat) powi (expo x + 1) = of_int (2 ^ 53) * ?u"
    by (simp add: power_int_diff power_int_add)
  from lo u have "of_int (2 ^ 52) \<le> x / ?u"
    by (simp only: a pos_le_divide_eq)
  from round_half_even_mono [OF this] have l: "2 ^ 52 \<le> round_half_even (x / ?u)"
    by (simp only: round_half_even_int)
  from hi u have "x / ?u \<le> of_int (2 ^ 53)"
    by (simp only: b pos_divide_le_eq less_imp_le)
  from round_half_even_mono [OF this] have h: "round_half_even (x / ?u) \<le> 2 ^ 53"
    by (simp only: round_half_even_int)
  have t: "to_double x = of_int (round_half_even (x / ?u)) * ?u"
    using nz by (simp add: to_double_def Let_def)
  from l have "(of_int (2 ^ 52) :: rat) \<le> of_int (round_half_even (x / ?u))"
    by (simp only: of_int_le_iff)
  with u show "2 powi (expo x) \<le> to_double x"
    by (simp only: a t mult_right_mono less_imp_le)
  from h have "(of_int (round_half_even (x / ?u)) :: rat) \<le> of_int (2 ^ 53)"
    by (simp only: of_int_le_iff)
  with u show "to_double x \<le> 2 powi (expo x + 1)"
    by (simp only: b t mult_right_mono less_imp_le)
qed

lemma expo_mono:
  assumes "0 < x" and "x \<le> y"
  shows "expo x \<le> expo y"
proof (rule ccontr)
  assume "\<not> expo x \<le> expo y"
  then have "expo y + 1 \<le> expo x" by simp
  then have "(2::rat) powi (expo y + 1) \<le> 2 powi (expo x)"
    by (simp only: power_int_increasing one_le_numeral)
  moreover from assms have "x \<noteq> 0" "y \<noteq> 0" by simp_all
  from expo_bounds(1) [OF this(1)] expo_bounds(2) [OF this(2)] assms
  have "2 powi (expo x) \<le> x" "y < 2 powi (expo y + 1)" by simp_all
  ultimately show False using assms(2) by linarith
qed

lemma to_double_mono:
  assumes "0 \<le> x" and "x \<le> y"
  shows "to_double x \<le> to_double y"
proof (cases "x = 0")
  case True
  show ?thesis
  proof (cases "y = 0")
    case True
    with \<open>x = 0\<close> show ?thesis by simp
  next
    case False
    with assms True have "0 < y" by simp
    have "(0::rat) < 2 powi (expo y)" by simp
    with to_double_binade(1) [OF \<open>0 < y\<close>] have "0 \<le> to_double y" by linarith
    with True show ?thesis
      by (simp add: to_double_0)
  qed
next
  case False
  with assms have x: "0 < x" and y: "0 < y" by simp_all
  show ?thesis
  proof (cases "expo x = expo y")
    case True
    let ?u = "(2::rat) powi (expo y - 52)"
    have u: "0 < ?u" by simp
    from assms(2) u have "x / ?u \<le> y / ?u"
      by (simp only: divide_right_mono less_imp_le)
    from round_half_even_mono [OF this]
    have "(of_int (round_half_even (x / ?u)) :: rat) \<le> of_int (round_half_even (y / ?u))"
      by (simp only: of_int_le_iff)
    with u have "of_int (round_half_even (x / ?u)) * ?u \<le> of_int (round_half_even (y / ?u)) * ?u"
      by (simp only: mult_right_mono less_imp_le)
    with x y True show ?thesis
      by (simp add: to_double_def Let_def)
  next
    case False
    with expo_mono [OF x assms(2)] have "expo x + 1 \<le> expo y" by simp
    then have "(2::rat) powi (expo x + 1) \<le> 2 powi (expo y)"
      by (simp only: power_int_increasing one_le_numeral)
    with to_double_binade(2) [OF x] to_double_binade(1) [OF y] show ?thesis
      by linarith
  qed
qed

lemma to_double_nonneg: "0 \<le> x \<Longrightarrow> 0 \<le> to_double x"
  using to_double_mono [of 0 x] by (simp add: to_double_0)

lemma to_double_1: "to_double 1 = 1"
  by code_simp

lemma to_double_100: "to_double 100 = 100"
  by code_simp

lemma py_round2_mono: "x \<le> y \<Longrightarrow> py_round2 x \<le> py_round2 y"
  by (simp add: py_round2_def round_half_even_mono divide_right_mono)

lemma py_round2_0: "py_round2 0 = 0"
  by (simp add: py_round2_def round_half_even_def)

lemma py_round2_100: "py_round2 100 = 100"
  by (simp add: py_round2_def round_half_even_def)


lemma py_round_0: "py_round 0 = 0"
  by (simp add: py_round_def py_round2_0 to_double_0)

lemma py_round_100: "py_round 100 = 100"
  by (simp add: py_round_def py_round2_100 to_double_100)

lemma py_round_mono: "0 \<le> x \<Longrightarrow> x \<le> y \<Longrightarrow> py_round x \<le> py_round y"
proof -
  assume "0 \<le> x" and "x \<le> y"
  from py_round2_mono [OF this(1)] have "0 \<le> py_round2 x"
    by (simp add: py_round2_0)
  moreover from \<open>x \<le> y\<close> have "py_round2 x \<le> py_round2 y"
    by (rule py_round2_mono)
  ultimately show ?thesis
    unfolding py_round_def by (rule to_double_mono)
qed

text \<open>The percent of \<open>n\<close> of \<open>t\<close> bytes grows with \<open>n\<close> and stays at or below 100.\<close>

lemma int_percent_mono:
  assumes "0 < t" and "0 \<le> m" and "m \<le> n"
  shows "int_percent m t \<le> int_percent n t"
proof -
  let ?x = "(of_int m :: rat) / of_int t" and ?y = "(of_int n :: rat) / of_int t"
  from assms have x: "0 \<le> ?x" and xy: "?x \<le> ?y"
    by (simp_all add: divide_right_mono)
  from to_double_nonneg [OF x] have a: "0 \<le> to_double ?x * 100"
    by simp
  from to_double_mono [OF x xy] have b: "to_double ?x * 100 \<le> to_double ?y * 100"
    by simp
  from to_double_nonneg [OF a] to_double_mono [OF a b] show ?thesis
    unfolding int_percent_def by (rule py_round_mono)
qed

lemma int_percent_full: "0 < t \<Longrightarrow> int_percent t t = 100"
  by (simp add: int_percent_def to_double_1 to_double_100 py_round_100)

lemma int_percent_le_100:
  assumes "0 < t" and "0 \<le> n" and "n \<le> t"
  shows "int_percent n t \<le> 100"
  using int_percent_mono [OF assms] int_percent_full [OF assms(1)] by simp


section \<open>Facts about the progress hook\<close>

lemma truthy_num: "num_of v = Some t \<Longrightarrow> t \<noteq> 0 \<Longrightarrow> truthy v"
  by (cases v) (auto split: if_splits)

lemma sample_percent_int:
  "dict_get d ''downloaded_bytes'' = PInt n \<Longrightarrow> t \<noteq> 0 \<Longrightarrow>
   sample_percent d (PInt t) = Inr (to_double (to_double (of_int n / of_int t) * 100))"
  by (simp add: sample_percent_def py_truediv_def)

lemma sample_percent_falsy: "\<not> truthy tot \<Longrightarrow> sample_percent d tot = Inr 0"
  by (simp add: sample_percent_def)

lemma hook_downloading:
  "dict_get d ''status'' = PStr ''downloading'' \<Longrightarrow> sample_percent d (sample_total d) = Inr p \<Longrightarrow>
   fst (progress_hook j d) =
     j\<lparr>progress := \<lparr> percent = py_round p,
                      downloaded_bytes = dict_get_default d ''downloaded_bytes'' (PInt 0),
                      total_bytes = sample_total d \<rparr>\<rparr>"
  by (simp add: progress_hook_def hook_update_def Let_def)

lemma hook_downloading_failed:
  "dict_get d ''status'' = PStr ''downloading'' \<Longrightarrow> sample_percent d (sample_total d) = Inl e \<Longrightarrow>
   fst (progress_hook j d) = j"
  by (simp add: progress_hook_def hook_update_def Let_def)

lemma hook_finished:
  "dict_get d ''status'' = PStr ''finished'' \<Longrightarrow>
   fst (progress_hook j d) = j\<lparr>progress := (progress j)\<lparr>percent := 100\<rparr>\<rparr>"
  by (simp add: progress_hook_def hook_update_def Let_def)

lemma hook_other:
  "dict_get d ''status'' \<noteq> PStr ''downloading'' \<Longrightarrow> dict_get d ''status'' \<noteq> PStr ''finished'' \<Longrightarrow>
   fst (progress_hook j d) = j"
  by (simp add: progress_hook_def hook_update_def Let_def)

lemma hook_raises: "snd (progress_hook j d) = None \<longleftrightarrow> \<not> cancel_requested j"
  by (auto simp add: progress_hook_def hook_update_def Let_def split: sum.splits)


lemma hook_int_percent:
  "dict_get d ''status'' = PStr ''downloading'' \<Longrightarrow> sample_total d = PInt t \<Longrightarrow> t \<noteq> 0 \<Longrightarrow>
   dict_get d ''downloaded_bytes'' = PInt n \<Longrightarrow>
   percent (progress (fst (progress_hook j d))) = int_percent n t"
  by (simp add: hook_downloading sample_percent_int int_percent_def)




section \<open>Facts about the tools\<close>

lemma list_downloads_eq:
  "list_downloads JOBS = map (\<lambda>j. filter (\<lambda>(k, v). k \<noteq> ''task'') (job_items j)) (map snd JOBS)"
  by (simp add: list_downloads_def)

lemma cancel_found_terminal:
  "is_terminal (status j) \<Longrightarrow>
   cancel_found jid j = (j, [(''status'', PStr ''cannot_cancel''),
             (''reason'', PStr (''job already '' @ status_str (status j))),
             (''job_id'', PStr jid)])"
  by (simp add: cancel_found_def)

lemma cancel_found_live:
  "\<not> is_terminal (status j) \<Longrightarrow>
   snd (cancel_found jid j) = [(''status'', PStr ''cancellation_requested''), (''job_id'', PStr jid)] \<and>
   status (fst (cancel_found jid j)) = Cancel_requested \<and>
   cancel_requested (fst (cancel_found jid j))"
  by (simp add: cancel_found_def Let_def split: option.splits)

lemma cancel_found_keeps:
  "job_id (fst (cancel_found jid j)) = job_id j"
  "url (fst (cancel_found jid j)) = url j"
  "progress (fst (cancel_found jid j)) = progress j"
  "error_message (fst (cancel_found jid j)) = error_message j"
  "output_path (fst (cancel_found jid j)) = output_path j"
  by (simp_all add: cancel_found_def Let_def split: option.splits)

lemma cancel_download_found:
  "map_of JOBS jid = Some j \<Longrightarrow>
   cancel_download JOBS jid = (AList.update jid (fst (cancel_found jid j)) JOBS, snd (cancel_found jid j))"
  by (simp add: cancel_download_def split: prod.splits)

text \<open>
  Claim C9. For a job id that is not in the registry, \<^verbatim>\<open>get_download_status\<close> and
  \<^verbatim>\<open>cancel_download\<close> return the not-found dictionary, and the registry is as it was.
  Neither function has a statement that can raise on this path.
\<close>

theorem unknown_job_not_found:
  "jid \<notin> fst ` set JOBS \<Longrightarrow>
   get_download_status JOBS jid = not_found jid \<and> cancel_download JOBS jid = (JOBS, not_found jid)"
proof -
  assume "jid \<notin> fst ` set JOBS"
  then have "map_of JOBS jid = None"
    by (simp add: map_of_eq_None_iff)
  then show ?thesis
    by (simp add: get_download_status_def cancel_download_def)
qed

theorem unknown_job_not_found_witness:
  "''id2'' \<notin> fst ` set [(''id1'', submitted ''id1'' ''u'' ''downloads'')] \<and>
   get_download_status [(''id1'', submitted ''id1'' ''u'' ''downloads'')] ''id2'' = not_found ''id2'' \<and>
   cancel_download [(''id1'', submitted ''id1'' ''u'' ''downloads'')] ''id2'' =
     ([(''id1'', submitted ''id1'' ''u'' ''downloads'')], not_found ''id2'')"
  using unknown_job_not_found [of "''id2''" "[(''id1'', submitted ''id1'' ''u'' ''downloads'')]"]
  by simp

text \<open>
  Claim C10. For a job of the registry, the snapshot returned by \<^verbatim>\<open>get_download_status\<close>
  has no key \<^verbatim>\<open>task\<close> and holds every other item of the job; \<^verbatim>\<open>list_downloads\<close>
  returns such a snapshot for the job, and none of the snapshots it returns has the key
  \<^verbatim>\<open>task\<close>.
\<close>

theorem snapshots_omit_task:
  "map_of JOBS jid = Some j \<Longrightarrow>
   ''task'' \<notin> fst ` set (get_download_status JOBS jid) \<and>
   (\<forall>(k, v) \<in> set (job_items j). k \<noteq> ''task'' \<longrightarrow> (k, v) \<in> set (get_download_status JOBS jid)) \<and>
   (\<exists>s \<in> set (list_downloads JOBS).
      ''task'' \<notin> fst ` set s \<and>
      (\<forall>(k, v) \<in> set (job_items j). k \<noteq> ''task'' \<longrightarrow> (k, v) \<in> set s)) \<and>
   (\<forall>s \<in> set (list_downloads JOBS). ''task'' \<notin> fst ` set s)"
proof -
  assume m: "map_of JOBS jid = Some j"
  let ?snap = "\<lambda>j. filter (\<lambda>(k, v). k \<noteq> ''task'') (job_items j)"
  have g: "get_download_status JOBS jid = ?snap j"
    using m by (simp add: get_download_status_def)
  have a: "''task'' \<notin> fst ` set (?snap x)" for x
    by auto
  have b: "\<forall>(k, v) \<in> set (job_items x). k \<noteq> ''task'' \<longrightarrow> (k, v) \<in> set (?snap x)" for x
    by auto
  have "j \<in> snd ` set JOBS"
    using m by (metis map_of_SomeD snd_conv image_eqI)
  then have c: "?snap j \<in> set (list_downloads JOBS)"
    by (auto simp add: list_downloads_eq)
  have d: "\<forall>s \<in> set (list_downloads JOBS). ''task'' \<notin> fst ` set s"
    by (auto simp add: list_downloads_eq)
  show ?thesis
    unfolding g using a [of j] b [of j] c d by blast
qed

theorem snapshots_omit_task_witness:
  "map_of [(''id1'', submitted ''id1'' ''u'' ''downloads'')] ''id1'' =
     Some (submitted ''id1'' ''u'' ''downloads'') \<and>
   ''task'' \<notin> fst ` set (get_download_status [(''id1'', submitted ''id1'' ''u'' ''downloads'')] ''id1'') \<and>
   (''status'', PStr ''pending'')
      \<in> set (get_download_status [(''id1'', submitted ''id1'' ''u'' ''downloads'')] ''id1'')"
proof -
  let ?j = "submitted ''id1'' ''u'' ''downloads''"
  have m: "map_of [(''id1'', ?j)] ''id1'' = Some ?j"
    by simp
  have i: "(''status'', PStr ''pending'') \<in> set (job_items ?j)"
    by (simp add: job_items_def submitted_def make_job_entry_def)
  from snapshots_omit_task [OF m] i m show ?thesis
    by fastforce
qed

text \<open>
  Claim C5. For a job of the registry: when its status is terminal, \<^verbatim>\<open>cancel_download\<close>
  returns the \<^verbatim>\<open>cannot_cancel\<close> dictionary and leaves the registry as it was; otherwise it
  returns \<^verbatim>\<open>cancellation_requested\<close> and the job has \<^verbatim>\<open>cancel_requested\<close> set, a
  second call right after returns \<^verbatim>\<open>cancellation_requested\<close> again, and a second call on a
  job that meanwhile became terminal (the job \<open>j''\<close>) returns \<^verbatim>\<open>cannot_cancel\<close>. The
  result never has the key \<^verbatim>\<open>error\<close>.
\<close>

theorem cancel_download_outcomes:
  "map_of JOBS jid = Some j \<Longrightarrow>
   (is_terminal (status j) \<longrightarrow>
      cancel_download JOBS jid =
        (JOBS, [(''status'', PStr ''cannot_cancel''),
                (''reason'', PStr (''job already '' @ status_str (status j))),
                (''job_id'', PStr jid)])) \<and>
   (\<not> is_terminal (status j) \<longrightarrow>
      snd (cancel_download JOBS jid) =
        [(''status'', PStr ''cancellation_requested''), (''job_id'', PStr jid)] \<and>
      map_option cancel_requested (map_of (fst (cancel_download JOBS jid)) jid) = Some True \<and>
      snd (cancel_download (fst (cancel_download JOBS jid)) jid) =
        [(''status'', PStr ''cancellation_requested''), (''job_id'', PStr jid)] \<and>
      (is_terminal (status j'') \<longrightarrow>
         snd (cancel_download (AList.update jid j'' (fst (cancel_download JOBS jid))) jid) =
           [(''status'', PStr ''cannot_cancel''),
            (''reason'', PStr (''job already '' @ status_str (status j''))),
            (''job_id'', PStr jid)])) \<and>
   ''error'' \<notin> fst ` set (snd (cancel_download JOBS jid))"
proof -
  assume m: "map_of JOBS jid = Some j"
  let ?J = "fst (cancel_download JOBS jid)"
  let ?j = "fst (cancel_found jid j)"
  have cd: "cancel_download JOBS jid = (AList.update jid ?j JOBS, snd (cancel_found jid j))"
    using m by (rule cancel_download_found)
  have t: "cancel_download JOBS jid =
        (JOBS, [(''status'', PStr ''cannot_cancel''),
                (''reason'', PStr (''job already '' @ status_str (status j))),
                (''job_id'', PStr jid)])" if "is_terminal (status j)"
    using that m by (simp add: cd cancel_found_terminal update_triv)
  have m': "map_of ?J jid = Some ?j"
    by (simp add: cd update_conv')
  have l1: "snd (cancel_download JOBS jid) =
        [(''status'', PStr ''cancellation_requested''), (''job_id'', PStr jid)]"
    and l2: "map_option cancel_requested (map_of ?J jid) = Some True"
    and l3: "snd (cancel_download ?J jid) =
        [(''status'', PStr ''cancellation_requested''), (''job_id'', PStr jid)]"
    if "\<not> is_terminal (status j)"
  proof -
    from that show "snd (cancel_download JOBS jid) =
        [(''status'', PStr ''cancellation_requested''), (''job_id'', PStr jid)]"
      by (simp add: cd cancel_found_live)
    from that show "map_option cancel_requested (map_of ?J jid) = Some True"
      by (simp add: m' cancel_found_live)
    from that have "\<not> is_terminal (status ?j)"
      by (simp add: cancel_found_live is_terminal_def)
    then show "snd (cancel_download ?J jid) =
        [(''status'', PStr ''cancellation_requested''), (''job_id'', PStr jid)]"
      by (simp add: cancel_download_found [OF m'] cancel_found_live)
  qed
  have l4: "snd (cancel_download (AList.update jid j'' ?J) jid) =
           [(''status'', PStr ''cannot_cancel''),
            (''reason'', PStr (''job already '' @ status_str (status j''))),
            (''job_id'', PStr jid)]" if "is_terminal (status j'')"
  proof -
    have "map_of (AList.update jid j'' ?J) jid = Some j''"
      by (simp add: update_conv')
    from cancel_download_found [OF this] that show ?thesis
      by (simp add: cancel_found_terminal)
  qed
  have e: "''error'' \<notin> fst ` set (snd (cancel_download JOBS jid))"
    by (cases "is_terminal (status j)") (simp_all add: t l1)
  from t l1 l2 l3 l4 e show ?thesis by blast
qed

theorem cancel_download_outcomes_witness:
  "snd (cancel_download [(''id1'', submitted ''id1'' ''u'' ''downloads'')] ''id1'') =
     [(''status'', PStr ''cancellation_requested''), (''job_id'', PStr ''id1'')] \<and>
   snd (cancel_download
          (fst (cancel_download [(''id1'', submitted ''id1'' ''u'' ''downloads'')] ''id1'')) ''id1'') =
     [(''status'', PStr ''cancellation_requested''), (''job_id'', PStr ''id1'')] \<and>
   cancel_download [(''id1'', (submitted ''id1'' ''u'' ''downloads'')\<lparr>status := Completed\<rparr>)] ''id1'' =
     ([(''id1'', (submitted ''id1'' ''u'' ''downloads'')\<lparr>status := Completed\<rparr>)],
      [(''status'', PStr ''cannot_cancel''), (''reason'', PStr ''job already completed''),
       (''job_id'', PStr ''id1'')])"
proof -
  let ?j = "submitted ''id1'' ''u'' ''downloads''"
  let ?c = "?j\<lparr>status := Completed\<rparr>"
  have a: "map_of [(''id1'', ?j)] ''id1'' = Some ?j" and b: "\<not> is_terminal (status ?j)"
    by (simp_all add: is_terminal_def submitted_def make_job_entry_def)
  have c: "map_of [(''id1'', ?c)] ''id1'' = Some ?c" and d: "is_terminal (status ?c)"
    by (simp_all add: is_terminal_def)
  from cancel_download_outcomes [OF a, of ?c] b cancel_download_outcomes [OF c, of ?c] d
  show ?thesis by simp
qed

text \<open>
  Claim C6, as the code has it. The submit tools validate nothing: for every URL, the empty
  one too, a pending job is put into the registry and its id is returned, whenever the
  download directory can be created.
\<close>

theorem submit_creates_job:
  "makedirs_error env download_path = None \<Longrightarrow>
   download_video env new_id JOBS u download_path =
     (AList.update new_id (submitted new_id u download_path) JOBS, Inr [(''job_id'', PStr new_id)]) \<and>
   download_playlist env new_id JOBS u download_path =
     (AList.update new_id (submitted new_id u download_path) JOBS, Inr [(''job_id'', PStr new_id)]) \<and>
   map_option status (map_of (fst (download_video env new_id JOBS u download_path)) new_id) = Some Pending \<and>
   map_option status (map_of (fst (download_playlist env new_id JOBS u download_path)) new_id) = Some Pending"
  by (simp add: download_video_def download_playlist_def submitted_def make_job_entry_def Let_def update_conv')

theorem submit_creates_job_witness:
  "makedirs_error example_os ''downloads'' = None \<and>
   download_video example_os ''id1'' [] [] ''downloads'' =
     ([(''id1'', submitted ''id1'' [] ''downloads'')], Inr [(''job_id'', PStr ''id1'')])"
  using submit_creates_job [of example_os "''downloads''" "''id1''" "[]" "[]"]
  by (simp add: example_os_def)

text \<open>
  Claim C6 as stated fails: a request with the empty URL gets a job and a job id, and a
  request whose download directory cannot be created leaves its job in the registry.
\<close>

theorem submit_empty_url_counterexample:
  "download_video example_os ''id1'' [] [] ''downloads'' =
     ([(''id1'', submitted ''id1'' [] ''downloads'')], Inr [(''job_id'', PStr ''id1'')]) \<and>
   download_playlist example_os ''id2'' [] ''u'' [] =
     ([(''id2'', make_job_entry ''id2'' ''u'' [])],
      Inl (Exc ''FileNotFoundError'' ''No such file or directory''))"
  by (simp add: download_video_def download_playlist_def submitted_def make_job_entry_def Let_def example_os_def)

section \<open>Facts about the life of a job\<close>

lemma run_job_raised_simps:
  "status (run_job_raised e j) = (if cancel_requested j then Cancelled else Error)"
  "cancel_requested (run_job_raised e j) = cancel_requested j"
  "task (run_job_raised e j) = task j"
  by (simp_all add: run_job_raised_def)




lemma set_phase_simps:
  "status (set_phase p j) = status j"
  "cancel_requested (set_phase p j) = cancel_requested j"
  "error_message (set_phase p j) = error_message j"
  "progress (set_phase p j) = progress j"
  "in_phase q (set_phase p j) = (task j \<noteq> None \<and> q = p)"
  "cancel_pending (set_phase p j) = cancel_pending j"
  by (auto simp add: set_phase_def in_phase_def cancel_pending_def split: option.splits)

lemma in_phase_task: "in_phase p j \<Longrightarrow> task j \<noteq> None"
  by (auto simp add: in_phase_def split: option.splits)

lemma in_phase_unique: "in_phase p j \<Longrightarrow> in_phase q j \<Longrightarrow> p = q"
  by (auto simp add: in_phase_def split: option.splits)







text \<open>A job with a terminal status and a finished task does not change any more.\<close>

lemma step_frozen:
  assumes "is_terminal (status j)" and "in_phase Done j" and "step env ydl_opts j ev = Some j'"
  shows "j' = j"
proof (cases ev)
  case Cancel_call
  with assms show ?thesis
    by (simp add: cancel_found_terminal)
qed (use assms in \<open>auto dest: in_phase_unique split: if_splits\<close>)

lemma run_frozen:
  "is_terminal (status j) \<Longrightarrow> in_phase Done j \<Longrightarrow> run_events env ydl_opts j evs = Some j' \<Longrightarrow>
   j' = j"
proof (induction evs arbitrary: j')
  case Nil
  then show ?case by simp
next
  case (Cons ev evs)
  from Cons.prems obtain j1 where s: "step env ydl_opts j ev = Some j1"
    and r: "run_events env ydl_opts j1 evs = Some j'"
    by (auto split: option.splits)
  from step_frozen [OF Cons.prems(1,2) s] have "j1 = j" .
  with Cons.IH [OF Cons.prems(1,2)] r show ?case by simp
qed

lemma raised_frozen:
  assumes "step env ydl_opts j (Fetch_raised e) = Some j'"
  shows "is_terminal (status j') \<and> in_phase Done j'"
  using assms
  by (auto simp add: set_phase_simps run_job_raised_simps is_terminal_def in_phase_task
      split: if_splits)

lemma strip_line:
  assumes "s \<noteq> []" and "\<not> is_space (hd s)" and "\<not> is_space (last s)"
  shows "strip (s @ [CHR 0x0A]) = s"
proof -
  from assms(1,2) have a: "dropWhile is_space (s @ [CHR 0x0A]) = s @ [CHR 0x0A]"
    by (cases s) simp_all
  from assms(1,3) have b: "dropWhile is_space (rev s) = rev s"
    by (cases s rule: rev_cases) simp_all
  have c: "is_space (CHR 0x0A)"
    by (simp add: is_space_def)
  show ?thesis
    by (simp add: strip_def a b c)
qed






text \<open>
  Claim C8, as the code has it. When the fetch raises an exception whose text is
  \<^verbatim>\<open>network unreachable\<close> and no cancellation was requested, the job ends with the status
  \<^verbatim>\<open>error\<close> and the message is the one-line rendering of the exception: the name of its
  class, a colon, a blank and the text. Nothing that happens afterwards changes the job.
\<close>

theorem failure_message_rendered:
  assumes "step env ydl_opts j (Fetch_raised e) = Some j'"
    and "\<not> cancel_requested j"
    and "exc_str e = ''network unreachable''"
    and "exc_type e \<noteq> []" and "\<not> is_space (hd (exc_type e))"
  shows "status j' = Error \<and>
         error_message j' = Some (exc_type e @ '': network unreachable'') \<and>
         (run_events env ydl_opts j' evs = Some j'' \<longrightarrow> j'' = j')"
proof -
  from assms(1) have j': "j' = set_phase Done (run_job_raised e j)"
    by (simp split: if_splits)
  let ?s = "exc_type e @ '': network unreachable''"
  from assms(4,5) have "?s \<noteq> []" and "\<not> is_space (hd ?s)" and "\<not> is_space (last ?s)"
    by (simp_all add: is_space_def)
  from strip_line [OF this] assms(3)
  have "strip (concat (format_exception_only e)) = ?s"
    by (simp add: format_exception_only_def)
  with assms(2) have "status j' = Error \<and> error_message j' = Some ?s"
    by (simp add: j' set_phase_simps run_job_raised_def)
  moreover from raised_frozen [OF assms(1)]
  have "run_events env ydl_opts j' evs = Some j'' \<longrightarrow> j'' = j'"
    by (auto dest: run_frozen)
  ultimately show ?thesis by simp
qed

theorem failure_message_rendered_witness:
  "map_option error_message
     (step example_os (video_opts example_os ''downloads'')
        ((submitted ''id1'' ''u'' ''downloads'')
           \<lparr>status := Downloading, task := Some \<lparr>phase = Fetching, cancel_called = False\<rparr>\<rparr>)
        (Fetch_raised (Exc ''OSError'' ''network unreachable''))) =
     Some (Some ''OSError: network unreachable'')"
proof -
  let ?E = example_os
  let ?O = "video_opts example_os ''downloads''"
  let ?j = "(submitted ''id1'' ''u'' ''downloads'')
           \<lparr>status := Downloading, task := Some \<lparr>phase = Fetching, cancel_called = False\<rparr>\<rparr>"
  let ?e = "Exc ''OSError'' ''network unreachable''"
  obtain k where k: "step ?E ?O ?j (Fetch_raised ?e) = Some k"
    by (simp add: in_phase_def)
  have "\<not> cancel_requested ?j"
    by (simp add: submitted_def make_job_entry_def)
  from failure_message_rendered [OF k this] have "error_message k = Some ''OSError: network unreachable''"
    by (simp add: is_space_def)
  with k show ?thesis by simp
qed

text \<open>
  Claim C8 as stated fails: for yt-dlp's \<^verbatim>\<open>DownloadError\<close> with the text
  \<^verbatim>\<open>network unreachable\<close> the stored message starts with the name of the class.
\<close>

theorem failure_message_counterexample:
  "map_option status
     (run_events example_os (video_opts example_os ''downloads'')
        (submitted ''id1'' ''u'' ''downloads'')
        [Begin, Fetch_raised (Exc ''yt_dlp.utils.DownloadError'' ''network unreachable'')]) =
     Some Error \<and>
   map_option error_message
     (run_events example_os (video_opts example_os ''downloads'')
        (submitted ''id1'' ''u'' ''downloads'')
        [Begin, Fetch_raised (Exc ''yt_dlp.utils.DownloadError'' ''network unreachable'')]) =
     Some (Some ''yt_dlp.utils.DownloadError: network unreachable'') \<and>
   ''yt_dlp.utils.DownloadError: network unreachable'' \<noteq> ''network unreachable''"
  by code_simp

section \<open>Facts about runs of samples\<close>

lemma trace_finished:
  "list_all (\<lambda>d. dict_get d ''status'' = PStr ''finished'') ds \<Longrightarrow>
   set (percent_trace j ds) \<subseteq> {100}"
  by (induction ds arbitrary: j) (auto simp add: Let_def hook_finished)

lemma sorted_const: "set xs \<subseteq> {c} \<Longrightarrow> sorted (xs :: rat list)"
  by (induction xs) auto

lemma growing_step:
  assumes "growing t lo (d # ds)" and "dict_get d ''status'' \<noteq> PStr ''finished''"
  obtains n where "dict_get d ''status'' = PStr ''downloading''" and "sample_total d = PInt t"
    and "dict_get d ''downloaded_bytes'' = PInt n" and "lo \<le> n" and "n \<le> t"
    and "growing t n ds"
  using assms by (auto split: pyval.splits)

lemma growing_bounds:
  assumes "0 < t"
  shows "0 \<le> lo \<Longrightarrow> lo \<le> t \<Longrightarrow> growing t lo ds \<Longrightarrow>
         sorted (percent_trace j ds) \<and>
         (\<forall>p \<in> set (percent_trace j ds). int_percent lo t \<le> p \<and> p \<le> 100)"
proof (induction ds arbitrary: j lo)
  case Nil
  then show ?case by simp
next
  case (Cons d ds)
  from int_percent_le_100 [OF assms Cons.prems(1,2)] have top: "int_percent lo t \<le> 100" .
  show ?case
  proof (cases "dict_get d ''status'' = PStr ''finished''")
    case True
    with Cons.prems(3) have "list_all (\<lambda>d'. dict_get d' ''status'' = PStr ''finished'') (d # ds)"
      by simp
    from trace_finished [OF this] have s: "set (percent_trace j (d # ds)) \<subseteq> {100}" .
    from sorted_const [OF s] s top show ?thesis
      by auto
  next
    case False
    from growing_step [OF Cons.prems(3) False] obtain n where
      st: "dict_get d ''status'' = PStr ''downloading''" and
      tt: "sample_total d = PInt t" and
      nn: "dict_get d ''downloaded_bytes'' = PInt n" and
      lo: "lo \<le> n" and hi: "n \<le> t" and g: "growing t n ds"
      by blast
    let ?j = "fst (progress_hook j d)"
    from assms have "t \<noteq> 0" by simp
    from hook_int_percent [OF st tt this nn]
    have p: "percent (progress ?j) = int_percent n t" .
    from Cons.prems(1) lo have n0: "0 \<le> n" by simp
    from Cons.IH [OF n0 hi g, of ?j]
    have ih: "sorted (percent_trace ?j ds)"
      "\<forall>q \<in> set (percent_trace ?j ds). int_percent n t \<le> q \<and> q \<le> 100"
      by simp_all
    from int_percent_mono [OF assms Cons.prems(1) lo]
    have low: "int_percent lo t \<le> int_percent n t" .
    from int_percent_le_100 [OF assms n0 hi] have up: "int_percent n t \<le> 100" .
    have tr: "percent_trace j (d # ds) = int_percent n t # percent_trace ?j ds"
      by (simp add: Let_def p)
    from ih low up show ?thesis
      unfolding tr by fastforce
  qed
qed

text \<open>
  Claim C4, as the code has it. The hook computes the percent from the sample alone and
  never compares it with the stored one. The percent values are non-decreasing over a run
  of \<^verbatim>\<open>downloading\<close> samples that all carry the same positive integer total and whose byte
  counts are integers that are not negative, do not decrease and do not exceed the total,
  followed by any number of \<^verbatim>\<open>finished\<close> samples.
\<close>

theorem percent_sorted_when_growing:
  assumes "0 < t" and "0 \<le> lo" and "growing t lo ds"
  shows "sorted (percent_trace j ds)"
proof (cases ds)
  case Nil
  then show ?thesis by simp
next
  case (Cons d ds')
  show ?thesis
  proof (cases "dict_get d ''status'' = PStr ''finished''")
    case True
    with assms(3) Cons have "list_all (\<lambda>d'. dict_get d' ''status'' = PStr ''finished'') ds"
      by simp
    from sorted_const [OF trace_finished [OF this]] show ?thesis .
  next
    case False
    from assms(3) have "growing t lo (d # ds')"
      by (simp only: Cons)
    from growing_step [OF this False] obtain n where
      st: "dict_get d ''status'' = PStr ''downloading''" and
      tt: "sample_total d = PInt t" and
      nn: "dict_get d ''downloaded_bytes'' = PInt n" and
      lo: "lo \<le> n" and hi: "n \<le> t" and g: "growing t n ds'"
      by blast
    from st tt nn hi g have "growing t n ds"
      by (simp add: Cons)
    moreover from assms(2) lo have "0 \<le> n" by simp
    ultimately show ?thesis
      using growing_bounds [OF assms(1) _ hi] by simp
  qed
qed

theorem percent_sorted_when_growing_witness:
  "percent_trace (make_job_entry ''id1'' ''u'' ''downloads'')
     [[(''status'', PStr ''downloading''), (''downloaded_bytes'', PInt 30), (''total_bytes'', PInt 100)],
      [(''status'', PStr ''downloading''), (''downloaded_bytes'', PInt 70), (''total_bytes'', PInt 100)],
      [(''status'', PStr ''downloading''), (''downloaded_bytes'', PInt 100), (''total_bytes'', PInt 100)],
      [(''status'', PStr ''finished'')]] = [30, 70, 100, 100] \<and>
   sorted (percent_trace (make_job_entry ''id1'' ''u'' ''downloads'')
     [[(''status'', PStr ''downloading''), (''downloaded_bytes'', PInt 30), (''total_bytes'', PInt 100)],
      [(''status'', PStr ''downloading''), (''downloaded_bytes'', PInt 70), (''total_bytes'', PInt 100)],
      [(''status'', PStr ''downloading''), (''downloaded_bytes'', PInt 100), (''total_bytes'', PInt 100)],
      [(''status'', PStr ''finished'')]])"
proof -
  let ?ds = "[[(''status'', PStr ''downloading''), (''downloaded_bytes'', PInt 30), (''total_bytes'', PInt 100)],
      [(''status'', PStr ''downloading''), (''downloaded_bytes'', PInt 70), (''total_bytes'', PInt 100)],
      [(''status'', PStr ''downloading''), (''downloaded_bytes'', PInt 100), (''total_bytes'', PInt 100)],
      [(''status'', PStr ''finished'')]]"
  have g: "growing 100 0 ?ds"
    by code_simp
  have v: "percent_trace (make_job_entry ''id1'' ''u'' ''downloads'') ?ds = [30, 70, 100, 100]"
    by code_simp
  have "(0::int) < 100" and "(0::int) \<le> 0" by simp_all
  from percent_sorted_when_growing [OF this g] v show ?thesis
    by simp
qed

text \<open>
  Claim C4 as stated fails: after a sample of 50 of 100 bytes, a sample without a total
  takes the percent from 50.0 back to 0.0 while the job is downloading.
\<close>

theorem percent_drop_counterexample:
  "run_events example_os (video_opts example_os ''downloads'')
     (submitted ''id1'' ''u'' ''downloads'') [Begin] =
     Some ((submitted ''id1'' ''u'' ''downloads'')
             \<lparr>status := Downloading, task := Some \<lparr>phase = Fetching, cancel_called = False\<rparr>\<rparr>) \<and>
   percent_trace
     ((submitted ''id1'' ''u'' ''downloads'')
        \<lparr>status := Downloading, task := Some \<lparr>phase = Fetching, cancel_called = False\<rparr>\<rparr>)
     [[(''status'', PStr ''downloading''), (''downloaded_bytes'', PInt 50),
       (''total_bytes'', PInt 100)],
      [(''status'', PStr ''downloading''), (''downloaded_bytes'', PInt 60)]] = [50, 0] \<and>
   \<not> sorted [50, 0 :: rat]"
  by code_simp

text \<open>
  Claim C7, as the code has it. While \<^verbatim>\<open>cancel_requested\<close> is not set the hook raises
  nothing, whatever the sample is. A sample is ignored, the job staying as it was, when its
  status is neither \<^verbatim>\<open>downloading\<close> nor \<^verbatim>\<open>finished\<close>, and when it is a
  \<^verbatim>\<open>downloading\<close> sample with a total that counts as true and a total or a byte count
  that is not a number. A \<^verbatim>\<open>downloading\<close> sample whose total is missing or counts as false
  is stored: the percent becomes 0.0, the byte count is taken as it is (0 if missing), and
  the total is the one of the sample.
\<close>

theorem hook_contains_failures:
  assumes "\<not> cancel_requested j"
  shows "snd (progress_hook j d) = None \<and>
         (dict_get d ''status'' \<noteq> PStr ''downloading'' \<and> dict_get d ''status'' \<noteq> PStr ''finished''
            \<longrightarrow> fst (progress_hook j d) = j) \<and>
         (dict_get d ''status'' = PStr ''downloading'' \<and> truthy (sample_total d) \<and>
            (num_of (sample_total d) = None \<or> num_of (dict_get d ''downloaded_bytes'') = None)
            \<longrightarrow> fst (progress_hook j d) = j) \<and>
         (dict_get d ''status'' = PStr ''downloading'' \<and> \<not> truthy (sample_total d)
            \<longrightarrow> progress (fst (progress_hook j d)) =
                  \<lparr> percent = 0,
                    downloaded_bytes = dict_get_default d ''downloaded_bytes'' (PInt 0),
                    total_bytes = sample_total d \<rparr>)"
proof (intro conjI impI)
  from assms show "snd (progress_hook j d) = None"
    by (simp add: hook_raises)
next
  assume "dict_get d ''status'' \<noteq> PStr ''downloading'' \<and> dict_get d ''status'' \<noteq> PStr ''finished''"
  then show "fst (progress_hook j d) = j"
    by (simp add: hook_other)
next
  assume h: "dict_get d ''status'' = PStr ''downloading'' \<and> truthy (sample_total d) \<and>
            (num_of (sample_total d) = None \<or> num_of (dict_get d ''downloaded_bytes'') = None)"
  then have "\<exists>e. py_truediv (dict_get d ''downloaded_bytes'') (sample_total d) = Inl e"
    by (cases "num_of (dict_get d ''downloaded_bytes'')") (auto simp add: py_truediv_def)
  with h obtain e where "sample_percent d (sample_total d) = Inl e"
    by (auto simp add: sample_percent_def)
  with h show "fst (progress_hook j d) = j"
    by (simp add: hook_downloading_failed)
next
  assume h: "dict_get d ''status'' = PStr ''downloading'' \<and> \<not> truthy (sample_total d)"
  then have "sample_percent d (sample_total d) = Inr 0"
    by (simp add: sample_percent_falsy)
  with h show "progress (fst (progress_hook j d)) =
                  \<lparr> percent = 0,
                    downloaded_bytes = dict_get_default d ''downloaded_bytes'' (PInt 0),
                    total_bytes = sample_total d \<rparr>"
    by (simp add: hook_downloading py_round_0)
qed

theorem hook_contains_failures_witness:
  "progress_hook (make_job_entry ''id1'' ''u'' ''downloads'')
     [(''status'', PStr ''downloading''), (''total_bytes'', PInt 100)] =
     (make_job_entry ''id1'' ''u'' ''downloads'', None) \<and>
   progress_hook (make_job_entry ''id1'' ''u'' ''downloads'') [(''status'', PInt 7)] =
     (make_job_entry ''id1'' ''u'' ''downloads'', None) \<and>
   progress (fst (progress_hook (make_job_entry ''id1'' ''u'' ''downloads'')
     [(''status'', PStr ''downloading''), (''downloaded_bytes'', PStr ''abc'')])) =
     \<lparr> percent = 0, downloaded_bytes = PStr ''abc'', total_bytes = PNone \<rparr>"
proof -
  let ?j = "make_job_entry ''id1'' ''u'' ''downloads''"
  let ?a = "[(''status'', PStr ''downloading''), (''total_bytes'', PInt 100)]"
  let ?b = "[(''status'', PInt 7)]"
  let ?c = "[(''status'', PStr ''downloading''), (''downloaded_bytes'', PStr ''abc'')]"
  have n: "\<not> cancel_requested ?j"
    by (simp add: make_job_entry_def)
  have a: "dict_get ?a ''status'' = PStr ''downloading'' \<and> truthy (sample_total ?a) \<and>
            (num_of (sample_total ?a) = None \<or> num_of (dict_get ?a ''downloaded_bytes'') = None)"
    by (simp add: dict_get_def dict_get_default_def sample_total_def py_or_def)
  have b: "dict_get ?b ''status'' \<noteq> PStr ''downloading'' \<and> dict_get ?b ''status'' \<noteq> PStr ''finished''"
    by (simp add: dict_get_def dict_get_default_def)
  have c: "dict_get ?c ''status'' = PStr ''downloading'' \<and> \<not> truthy (sample_total ?c)"
    and c': "dict_get_default ?c ''downloaded_bytes'' (PInt 0) = PStr ''abc''"
      "sample_total ?c = PNone"
    by (simp_all add: dict_get_def dict_get_default_def sample_total_def py_or_def)
  from hook_contains_failures [OF n, of ?a] a
  have "progress_hook ?j ?a = (?j, None)"
    by (simp add: prod_eq_iff)
  moreover from hook_contains_failures [OF n, of ?b] b
  have "progress_hook ?j ?b = (?j, None)"
    by (simp add: prod_eq_iff)
  moreover from hook_contains_failures [OF n, of ?c] c c'
  have "progress (fst (progress_hook ?j ?c)) =
     \<lparr> percent = 0, downloaded_bytes = PStr ''abc'', total_bytes = PNone \<rparr>"
    by simp
  ultimately show ?thesis by simp
qed

text \<open>
  Claim C7 as stated fails: a sample whose byte count is the string \<^verbatim>\<open>abc\<close> and that has
  no total is not ignored; it replaces the progress of 50 of 100 bytes.
\<close>

theorem malformed_sample_counterexample:
  "map_option progress
     (run_events example_os (video_opts example_os ''downloads'')
        (submitted ''id1'' ''u'' ''downloads'')
        [Begin,
         Sample [(''status'', PStr ''downloading''), (''downloaded_bytes'', PInt 50),
                 (''total_bytes'', PInt 100)]]) =
     Some \<lparr> percent = 50, downloaded_bytes = PInt 50, total_bytes = PInt 100 \<rparr> \<and>
   map_option progress
     (run_events example_os (video_opts example_os ''downloads'')
        (submitted ''id1'' ''u'' ''downloads'')
        [Begin,
         Sample [(''status'', PStr ''downloading''), (''downloaded_bytes'', PInt 50),
                 (''total_bytes'', PInt 100)],
         Sample [(''status'', PStr ''downloading''), (''downloaded_bytes'', PStr ''abc'')]]) =
     Some \<lparr> percent = 0, downloaded_bytes = PStr ''abc'', total_bytes = PNone \<rparr>"
  by code_simp

end
